theory Spec2Isabelle
  imports Main "HOL-Library.Word" "HOL-Library.Char_ord" "HOL-Library.List_Lexorder"
begin

section \<open>Bytes and hexadecimal strings (utils/keys: toHex, hexToBytes)\<close>

text \<open>
  A \<open>Uint8Array\<close> is a list of 8-bit words. JavaScript strings are modelled as HOL
  strings, that is over the code units 0 to 255.
\<close>

type_synonym byte = "8 word"
type_synonym bytes = "byte list"

text \<open>Exceptions of the JavaScript runtime and of the libraries, as values.\<close>

datatype error = TypeError | SyntaxError | RangeError | LibraryError

text \<open>\<open>Number.prototype.toString(16)\<close> on a non-negative integer: lowercase digits.\<close>

definition hexDigit :: "nat \<Rightarrow> char" where
  "hexDigit d = ''0123456789abcdef'' ! d"

fun toString16 :: "nat \<Rightarrow> string" where
  "toString16 n = (if n < 16 then [hexDigit n] else toString16 (n div 16) @ [hexDigit (n mod 16)])"

declare toString16.simps [simp del]

definition padStart :: "nat \<Rightarrow> char \<Rightarrow> string \<Rightarrow> string" where
  "padStart n c s = replicate (n - length s) c @ s"

text \<open>
  \<^verbatim>\<open>Array.from(bytes).map(b => b.toString(16).padStart(2, '0')).join('')\<close>
\<close>

definition toHex :: "bytes \<Rightarrow> string" where
  "toHex bs = concat (map (\<lambda>b. padStart 2 (CHR ''0'') (toString16 (unat b))) bs)"

text \<open>
  \<open>parseInt(s, 16)\<close>: leading white space is skipped, then an optional sign, then an
  optional \<open>0x\<close> or \<open>0X\<close>, then the longest run of hexadecimal digits of either case
  is read; no digit at all gives \<open>NaN\<close>, which is \<open>None\<close> here.
\<close>

definition isWhiteSpace :: "char \<Rightarrow> bool" where
  "isWhiteSpace c = (of_char c \<in> {9, 10, 11, 12, 13, 32, 160 :: nat})"

definition digitValue :: "char \<Rightarrow> nat option" where
  "digitValue c =
     (let n = (of_char c :: nat) in
      if 48 \<le> n \<and> n \<le> 57 then Some (n - 48)
      else if 97 \<le> n \<and> n \<le> 102 then Some (n - 87)
      else if 65 \<le> n \<and> n \<le> 70 then Some (n - 55)
      else None)"

fun readDigits :: "nat \<Rightarrow> string \<Rightarrow> nat" where
  "readDigits acc [] = acc"
| "readDigits acc (c # cs) =
     (case digitValue c of None \<Rightarrow> acc | Some d \<Rightarrow> readDigits (16 * acc + d) cs)"

definition stripPrefix0x :: "string \<Rightarrow> string" where
  "stripPrefix0x s =
     (case s of
        c # d # r \<Rightarrow> if c = CHR ''0'' \<and> (d = CHR ''x'' \<or> d = CHR ''X'') then r else s
      | _ \<Rightarrow> s)"

definition parseInt16 :: "string \<Rightarrow> int option" where
  "parseInt16 s =
     (let s1 = dropWhile isWhiteSpace s;
          neg = (case s1 of c # _ \<Rightarrow> c = CHR ''-'' | [] \<Rightarrow> False);
          s2 = (case s1 of c # r \<Rightarrow> if c = CHR ''-'' \<or> c = CHR ''+'' then r else s1 | [] \<Rightarrow> s1);
          s3 = stripPrefix0x s2
      in case s3 of
           [] \<Rightarrow> None
         | c # _ \<Rightarrow>
             (case digitValue c of
                None \<Rightarrow> None
              | Some _ \<Rightarrow> Some ((if neg then - 1 else 1) * int (readDigits 0 s3))))"

text \<open>Storing a number into a \<open>Uint8Array\<close> element: \<open>NaN\<close> becomes 0, an integer wraps.\<close>

definition toUint8 :: "int option \<Rightarrow> byte" where
  "toUint8 v = (case v of None \<Rightarrow> 0 | Some n \<Rightarrow> word_of_int n)"

definition substr :: "string \<Rightarrow> nat \<Rightarrow> nat \<Rightarrow> string" where
  "substr s i n = take n (drop i s)"

text \<open>
  \<^verbatim>\<open>
  function hexToBytes(hex: string): Uint8Array {
      const bytes = new Uint8Array(hex.length / 2);
      for (let i = 0; i < hex.length; i += 2) {
          bytes[i / 2] = parseInt(hex.substr(i, 2), 16);
      }
      return bytes;
  }
  \<close>
  The array has \<open>hex.length / 2\<close> elements, rounded down; a store beyond its end (the
  last, single character of a string of odd length) is ignored, as a list update out of
  range is.
\<close>

function hexToBytes_loop :: "string \<Rightarrow> nat \<Rightarrow> bytes \<Rightarrow> bytes" where
  "hexToBytes_loop hex i bs =
     (if i < length hex
      then hexToBytes_loop hex (i + 2) (bs[i div 2 := toUint8 (parseInt16 (substr hex i 2))])
      else bs)"
  by pat_completeness auto
termination
  by (relation "measure (\<lambda>(hex, i, bs). length hex - i)") auto

declare hexToBytes_loop.simps [simp del]

definition hexToBytes :: "string \<Rightarrow> bytes" where
  "hexToBytes hex = hexToBytes_loop hex 0 (replicate (length hex div 2) 0)"


section \<open>Exceptions\<close>

definition bindE :: "error + 'a \<Rightarrow> ('a \<Rightarrow> error + 'b) \<Rightarrow> error + 'b" where
  "bindE m f = (case m of Inl e \<Rightarrow> Inl e | Inr v \<Rightarrow> f v)"

text \<open>\<open>try { body } catch (error) { handler }\<close>\<close>

definition catchE :: "error + 'a \<Rightarrow> (error \<Rightarrow> error + 'a) \<Rightarrow> error + 'a" where
  "catchE m h = (case m of Inl e \<Rightarrow> h e | Inr v \<Rightarrow> Inr v)"

text \<open>
  A property that is absent reads as \<open>undefined\<close>, here \<open>None\<close>. Reading a property
  of \<open>undefined\<close>, and \<open>hexToBytes(undefined)\<close> at \<open>hex.length\<close>, throw a TypeError.
\<close>

definition need :: "'a option \<Rightarrow> error + 'a" where
  "need v = (case v of None \<Rightarrow> Inl TypeError | Some x \<Rightarrow> Inr x)"

definition hexToBytesU :: "string option \<Rightarrow> error + bytes" where
  "hexToBytesU v = bindE (need v) (\<lambda>hex. Inr (hexToBytes hex))"

text \<open>\<open>!v\<close> on a value that is a string or \<open>undefined\<close>/\<open>null\<close>.\<close>

definition falsy :: "string option \<Rightarrow> bool" where
  "falsy v = (v = None \<or> v = Some [])"

section \<open>JSON documents and the libraries\<close>

text \<open>
  The JSON documents of the protocol, at the shapes the code reads them: every field is a
  string (an integer for the time stamp) or absent.
\<close>

record publicKeyData =
  ed25519 :: "string option"
  x25519 :: "string option"

record keyHalf =
  kh_publicKey :: "string option"
  kh_privateKey :: "string option"

record keyPair =
  kp_ed25519 :: "keyHalf option"
  kp_x25519 :: "keyHalf option"

record payload =
  pl_publicKey :: "string option"
  pl_message :: "string option"
  pl_timestamp :: "int option"

record encryptedMessage =
  em_encrypted :: "string option"
  em_nonce :: "string option"
  em_signature :: "string option"

text \<open>
  The libraries the code calls are parameters of the model: \<open>@noble/curves\<close>
  (Ed25519, X25519), \<open>@noble/ciphers\<close> (ChaCha20-Poly1305), \<open>expo-crypto\<close> (SHA-256),
  \<open>TextEncoder\<close>/\<open>TextDecoder\<close> and \<open>JSON\<close>. A call that throws returns \<open>Inl\<close>. \<open>JSON.parse\<close> of a
  text gives \<open>Inl SyntaxError\<close>, the document \<open>null\<close> as \<open>Inr None\<close>, or the fields
  read from the document.
\<close>

record libs =
  ed25519_getPublicKey :: "bytes \<Rightarrow> error + bytes"
  ed25519_sign :: "bytes \<Rightarrow> bytes \<Rightarrow> error + bytes"
  ed25519_verify :: "bytes \<Rightarrow> bytes \<Rightarrow> bytes \<Rightarrow> error + bool"
  x25519_getPublicKey :: "bytes \<Rightarrow> error + bytes"
  x25519_getSharedSecret :: "bytes \<Rightarrow> bytes \<Rightarrow> error + bytes"
  chacha20poly1305_encrypt :: "bytes \<Rightarrow> bytes \<Rightarrow> bytes \<Rightarrow> error + bytes"
  chacha20poly1305_decrypt :: "bytes \<Rightarrow> bytes \<Rightarrow> bytes \<Rightarrow> error + bytes"
  sha256 :: "bytes \<Rightarrow> bytes"
  textEncode :: "string \<Rightarrow> bytes"
  textDecode :: "bytes \<Rightarrow> string"
  parsePublicKey :: "string \<Rightarrow> error + publicKeyData option"
  stringifyPublicKey :: "publicKeyData \<Rightarrow> string"
  parseKeyPair :: "string \<Rightarrow> error + keyPair option"
  stringifyKeyPair :: "keyPair \<Rightarrow> string"
  parsePayload :: "string \<Rightarrow> error + payload option"
  stringifyPayload :: "payload \<Rightarrow> string"
  parseEncryptedMessage :: "string \<Rightarrow> error + encryptedMessage option"
  stringifyEncryptedMessage :: "encryptedMessage \<Rightarrow> string"

text \<open>\<open>JSON.parse(text)\<close> followed by the first read of a field of the result.\<close>

definition fromJSON :: "(string \<Rightarrow> error + 'a option) \<Rightarrow> string \<Rightarrow> error + 'a" where
  "fromJSON parse text = bindE (parse text) need"

section \<open>Keys (utils/keys)\<close>

record storedKeys =
  publicKey :: string
  privateKey :: string

text \<open>The \<open>keyPair\<close> object that \<open>generateKeyPair\<close> builds from the seed it drew.\<close>

definition keyPairObject :: "libs \<Rightarrow> bytes \<Rightarrow> error + keyPair" where
  "keyPairObject L seed =
     (let ed25519PrivateKey = seed in
      bindE (ed25519_getPublicKey L ed25519PrivateKey) (\<lambda>ed25519PublicKey.
      let x25519PrivateKey = seed in
      bindE (x25519_getPublicKey L x25519PrivateKey) (\<lambda>x25519PublicKey.
      Inr \<lparr>kp_ed25519 = Some \<lparr>kh_publicKey = Some (toHex ed25519PublicKey),
                               kh_privateKey = Some (toHex ed25519PrivateKey)\<rparr>,
           kp_x25519 = Some \<lparr>kh_publicKey = Some (toHex x25519PublicKey),
                              kh_privateKey = Some (toHex x25519PrivateKey)\<rparr>\<rparr>)))"

definition generateKeyPair :: "libs \<Rightarrow> bytes \<Rightarrow> error + storedKeys" where
  "generateKeyPair L seed =
     bindE (keyPairObject L seed) (\<lambda>kp.
     bindE (need (kp_ed25519 kp)) (\<lambda>e.
     bindE (need (kp_x25519 kp)) (\<lambda>x.
     let publicKeyData = \<lparr>ed25519 = kh_publicKey e, x25519 = kh_publicKey x\<rparr> in
     Inr \<lparr>publicKey = stringifyPublicKey L publicKeyData,
          privateKey = stringifyKeyPair L kp\<rparr>)))"

text \<open>
  The secure store of the device maps names to strings; reading and writing it do not
  fail in the model. \<open>getKeys\<close> returns the stored keys, or generates and stores a pair
  when one is missing or empty; when the generation throws, the \<open>catch\<close> clause
  generates a pair from a second draw of the seed and does not store it.
\<close>

type_synonym secureStore = "string \<rightharpoonup> string"

definition PUBLIC_KEY :: string where "PUBLIC_KEY = ''user_public_key''"
definition PRIVATE_KEY :: string where "PRIVATE_KEY = ''user_private_key''"

definition generateAndStore :: "libs \<Rightarrow> bytes \<times> bytes \<Rightarrow> secureStore \<Rightarrow> (error + storedKeys) \<times> secureStore" where
  "generateAndStore L seeds store =
     (case generateKeyPair L (fst seeds) of
        Inr ks \<Rightarrow> (Inr ks, store(PUBLIC_KEY \<mapsto> publicKey ks, PRIVATE_KEY \<mapsto> privateKey ks))
      | Inl _ \<Rightarrow> (generateKeyPair L (snd seeds), store))"

definition getKeys :: "libs \<Rightarrow> bytes \<times> bytes \<Rightarrow> secureStore \<Rightarrow> (error + storedKeys) \<times> secureStore" where
  "getKeys L seeds store =
     (case (store PUBLIC_KEY, store PRIVATE_KEY) of
        (Some pub, Some priv) \<Rightarrow>
          if pub = [] \<or> priv = [] then generateAndStore L seeds store
          else (Inr \<lparr>publicKey = pub, privateKey = priv\<rparr>, store)
      | _ \<Rightarrow> generateAndStore L seeds store)"

section \<open>Conversation identifier\<close>

text \<open>
  \<open>[a, b].sort()\<close> with the default order: \<open>undefined\<close> goes last, strings are compared
  by code units. \<open>a + b\<close> on these values, then converted to a string by the encoder.
\<close>

definition sort2 :: "string option \<Rightarrow> string option \<Rightarrow> string option \<times> string option" where
  "sort2 a b =
     (case (a, b) of
        (Some x, Some y) \<Rightarrow> if y < x then (Some y, Some x) else (Some x, Some y)
      | (None, _) \<Rightarrow> (b, None)
      | (_, None) \<Rightarrow> (a, None))"

definition plus_js :: "string option \<Rightarrow> string option \<Rightarrow> string" where
  "plus_js a b =
     (case (a, b) of
        (Some x, Some y) \<Rightarrow> x @ y
      | (Some x, None) \<Rightarrow> x @ ''undefined''
      | (None, Some y) \<Rightarrow> ''undefined'' @ y
      | (None, None) \<Rightarrow> ''NaN'')"

definition generateConversationId :: "libs \<Rightarrow> string \<Rightarrow> string \<Rightarrow> error + string" where
  "generateConversationId L publicKey1 publicKey2 =
     bindE (parsePublicKey L publicKey1) (\<lambda>key1Data.
     bindE (parsePublicKey L publicKey2) (\<lambda>key2Data.
     bindE (need key1Data) (\<lambda>k1.
     bindE (need key2Data) (\<lambda>k2.
     let (sortedKey1, sortedKey2) = sort2 (ed25519 k1) (ed25519 k2);
         combined = plus_js sortedKey1 sortedKey2;
         hashArray = sha256 L (textEncode L combined)
     in Inr (toHex hashArray)))))"


section \<open>Signing, encryption and decryption on the device\<close>

text \<open>What the device draws from its surroundings during one call.\<close>

record environment =
  env_now :: int
  env_seeds :: "bytes \<times> bytes"
  env_randomBytes12 :: bytes


record encryptResult =
  er_destination :: string
  er_message :: string

definition encryptMessage ::
  "libs \<Rightarrow> environment \<Rightarrow> secureStore \<Rightarrow> string \<Rightarrow> string \<Rightarrow> (error + encryptResult) \<times> secureStore" where
  "encryptMessage L env store msg recipientPublicKey =
     (let (ks, store') = getKeys L (env_seeds env) store in
      (bindE ks (\<lambda>ks.
       bindE (fromJSON (parseKeyPair L) (privateKey ks)) (\<lambda>keyPair.
       let payload = \<lparr>pl_publicKey = Some (publicKey ks), pl_message = Some msg,
                      pl_timestamp = Some (env_now env)\<rparr>;
           payloadString = stringifyPayload L payload in
       bindE (fromJSON (parsePublicKey L) recipientPublicKey) (\<lambda>recipientPublicKeyData.
       bindE (need (kp_x25519 keyPair)) (\<lambda>x.
       bindE (hexToBytesU (kh_privateKey x)) (\<lambda>x25519PrivateKeyBytes.
       bindE (hexToBytesU (x25519 recipientPublicKeyData)) (\<lambda>recipientX25519PublicKeyBytes.
       bindE (x25519_getSharedSecret L x25519PrivateKeyBytes recipientX25519PublicKeyBytes)
         (\<lambda>sharedSecret.
       let payloadBytes = textEncode L payloadString;
           nonce = env_randomBytes12 env in
       bindE (chacha20poly1305_encrypt L sharedSecret nonce payloadBytes) (\<lambda>encrypted.
       let encryptedHex = toHex encrypted;
           nonceHex = toHex nonce in
       bindE (need (kp_ed25519 keyPair)) (\<lambda>e.
       bindE (hexToBytesU (kh_privateKey e)) (\<lambda>ed25519PrivateKeyBytes.
       bindE (ed25519_sign L encrypted ed25519PrivateKeyBytes) (\<lambda>signature.
       Inr \<lparr>er_destination = recipientPublicKey,
            er_message = stringifyEncryptedMessage L
              \<lparr>em_encrypted = Some encryptedHex, em_nonce = Some nonceHex,
               em_signature = Some (toHex signature)\<rparr>\<rparr>))))))))))), store'))"

record incoming =
  in_origin :: "string option"
  in_destination :: "string option"
  in_encryptedMessage :: "encryptedMessage option"

record decrypted =
  d_senderPublicKey :: "string option"
  d_message :: "string option"
  d_timestamp :: "int option"

text \<open>
  The \<open>try\<close> block of \<open>decryptMessage\<close> after \<open>getKeys\<close>. The result of the signature
  check is bound to \<open>isValid\<close>; the source logs when it is false and goes on.
\<close>

definition decryptMessage_try :: "libs \<Rightarrow> storedKeys \<Rightarrow> incoming \<Rightarrow> error + decrypted option" where
  "decryptMessage_try L ks encryptedPayload =
     bindE (fromJSON (parseKeyPair L) (privateKey ks)) (\<lambda>keyPair.
     bindE (need (in_encryptedMessage encryptedPayload)) (\<lambda>parsed.
     if falsy (em_nonce parsed) then Inr None
     else
     bindE (case in_origin encryptedPayload of
              None \<Rightarrow> Inl SyntaxError
            | Some origin \<Rightarrow> fromJSON (parsePublicKey L) origin) (\<lambda>senderPublicKeyData.
     bindE (hexToBytesU (ed25519 senderPublicKeyData)) (\<lambda>senderEd25519PublicKeyBytes.
     bindE (hexToBytesU (em_signature parsed)) (\<lambda>signatureBytes.
     bindE (hexToBytesU (em_encrypted parsed)) (\<lambda>encryptedBytesForVerification.
     bindE (ed25519_verify L signatureBytes encryptedBytesForVerification
              senderEd25519PublicKeyBytes) (\<lambda>isValid.
     bindE (need (kp_x25519 keyPair)) (\<lambda>x.
     bindE (hexToBytesU (kh_privateKey x)) (\<lambda>x25519PrivateKeyBytes.
     bindE (hexToBytesU (x25519 senderPublicKeyData)) (\<lambda>senderX25519PublicKeyBytes.
     bindE (x25519_getSharedSecret L x25519PrivateKeyBytes senderX25519PublicKeyBytes)
       (\<lambda>sharedSecret.
     bindE (hexToBytesU (em_encrypted parsed)) (\<lambda>encryptedBytes.
     bindE (hexToBytesU (em_nonce parsed)) (\<lambda>nonceBytes.
     bindE (chacha20poly1305_decrypt L sharedSecret nonceBytes encryptedBytes)
       (\<lambda>decryptedBytes.
     let decrypted = textDecode L decryptedBytes in
     bindE (fromJSON (parsePayload L) decrypted) (\<lambda>payload.
     Inr (Some \<lparr>d_senderPublicKey = pl_publicKey payload, d_message = pl_message payload,
                d_timestamp = pl_timestamp payload\<rparr>))))))))))))))))"

text \<open>
  \<open>decryptMessage\<close>: the whole body is inside \<open>try\<close>, and the \<open>catch\<close> clause returns
  \<open>null\<close>. \<open>Inl\<close> in the result would be an exception reaching the caller.
\<close>

definition decryptMessage ::
  "libs \<Rightarrow> environment \<Rightarrow> secureStore \<Rightarrow> incoming \<Rightarrow> (error + decrypted option) \<times> secureStore" where
  "decryptMessage L env store encryptedPayload =
     (let (ks, store') = getKeys L (env_seeds env) store in
      (catchE (bindE ks (\<lambda>ks. decryptMessage_try L ks encryptedPayload)) (\<lambda>error. Inr None),
       store'))"


section \<open>The request the device sends (hooks/useBackend: sendMessage)\<close>

text \<open>
  A number in a template literal: the time stamps are integers (\<open>Date.now()\<close>), which
  print in decimal (below \<open>10^21\<close>, far above any time in milliseconds).
\<close>

function digits10 :: "int \<Rightarrow> string" where
  "digits10 n =
     (if n < 10 then [hexDigit (nat n)] else digits10 (n div 10) @ [hexDigit (nat (n mod 10))])"
  by pat_completeness auto
termination
  by (relation "measure nat") auto

declare digits10.simps [simp del]

definition numberToString :: "int \<Rightarrow> string" where
  "numberToString n = (if n < 0 then CHR ''-'' # digits10 (- n) else digits10 n)"





section \<open>The relay (whispers-nodejs-be)\<close>

text \<open>
  A field of a request body is any JSON value. Numbers are integers. An object or an
  array is kept as the one thing the code asks of it (in \<open>sanitizeForLog\<close>): whether
  its \<open>length\<close> is greater than 30.
\<close>

datatype jsvalue = Undefined | Null | Boolean bool | Number int | String string | Object bool

definition truthy :: "jsvalue \<Rightarrow> bool" where
  "truthy v =
     (case v of
        Undefined \<Rightarrow> False | Null \<Rightarrow> False | Boolean b \<Rightarrow> b | Number n \<Rightarrow> n \<noteq> 0
      | String s \<Rightarrow> s \<noteq> [] | Object _ \<Rightarrow> True)"

definition isHexChar :: "char \<Rightarrow> bool" where
  "isHexChar c = (digitValue c \<noteq> None)"

text \<open>\<open>/^(0x)?[a-f0-9]{64}$/i\<close>\<close>

definition hexPattern64 :: "string \<Rightarrow> bool" where
  "hexPattern64 s =
     ((length s = 64 \<and> list_all isHexChar s) \<or>
      (length s = 66 \<and> (take 2 s = ''0x'' \<or> take 2 s = ''0X'') \<and> list_all isHexChar (drop 2 s)))"

text \<open>\<open>/^[a-f0-9]+$/i\<close> and \<open>/^[a-f0-9]{128}$/i\<close>\<close>

definition hexPattern :: "string \<Rightarrow> bool" where
  "hexPattern s = (s \<noteq> [] \<and> list_all isHexChar s)"

definition hexPattern128 :: "string \<Rightarrow> bool" where
  "hexPattern128 s = (length s = 128 \<and> list_all isHexChar s)"

record pushMessage =
  pm_to :: string
  pm_origin :: jsvalue
  pm_destination :: jsvalue
  pm_encryptedMessage :: encryptedMessage
  pm_sound :: jsvalue
  pm_badge :: jsvalue
  pm_channelId :: jsvalue

text \<open>
  The libraries of the server: \<open>JSON\<close>, \<open>tweetnacl\<close>, \<open>Buffer.from(_, 'utf8')\<close> and the
  Expo SDK.
\<close>

record serverLibs =
  sv_parsePublicKey :: "string \<Rightarrow> error + publicKeyData option"
  sv_parseEncryptedMessage :: "string \<Rightarrow> error + encryptedMessage option"
  nacl_verify :: "bytes \<Rightarrow> bytes \<Rightarrow> bytes \<Rightarrow> error + bool"
  bufferFromUtf8 :: "string \<Rightarrow> bytes"
  isExpoPushToken :: "string \<Rightarrow> bool"
  sendPushNotifications :: "pushMessage \<Rightarrow> error + string"

text \<open>\<open>typeof v === 'string' && pattern.test(v)\<close>\<close>

definition isStringAnd :: "(string \<Rightarrow> bool) \<Rightarrow> string option \<Rightarrow> bool" where
  "isStringAnd pattern v = (case v of None \<Rightarrow> False | Some s \<Rightarrow> pattern s)"

definition isValidKeyObject :: "serverLibs \<Rightarrow> jsvalue \<Rightarrow> bool" where
  "isValidKeyObject S keyObj =
     (case keyObj of
        String k \<Rightarrow>
          if length k > 500 then False
          else (case fromJSON (sv_parsePublicKey S) k of
                  Inl _ \<Rightarrow> False
                | Inr parsed \<Rightarrow>
                    if falsy (ed25519 parsed) \<or> falsy (x25519 parsed) then False
                    else isStringAnd hexPattern64 (ed25519 parsed)
                       \<and> isStringAnd hexPattern64 (x25519 parsed))
      | _ \<Rightarrow> False)"

definition isValidEncryptedMessage :: "serverLibs \<Rightarrow> jsvalue \<Rightarrow> bool" where
  "isValidEncryptedMessage S msg =
     (case msg of
        String m \<Rightarrow>
          if length m > 5000 then False
          else (case fromJSON (sv_parseEncryptedMessage S) m of
                  Inl _ \<Rightarrow> False
                | Inr parsed \<Rightarrow>
                    if falsy (em_encrypted parsed) \<or> falsy (em_signature parsed) \<or> falsy (em_nonce parsed)
                    then False
                    else isStringAnd hexPattern (em_encrypted parsed)
                       \<and> isStringAnd hexPattern (em_signature parsed)
                       \<and> isStringAnd hexPattern (em_nonce parsed))
      | _ \<Rightarrow> False)"

text \<open>
  \<open>Buffer.from(s, 'hex')\<close> decodes pairs of hexadecimal digits and stops at the first
  pair that is not one.
\<close>

fun bufferFromHex :: "string \<Rightarrow> bytes" where
  "bufferFromHex (a # b # r) =
     (case (digitValue a, digitValue b) of
        (Some h, Some l) \<Rightarrow> word_of_nat (16 * h + l) # bufferFromHex r
      | _ \<Rightarrow> [])"
| "bufferFromHex _ = []"

text \<open>\<open>.replace(/^0x/, '')\<close>\<close>

definition replace0x :: "string \<Rightarrow> string" where
  "replace0x s = (if take 2 s = ''0x'' then drop 2 s else s)"

text \<open>
  \<open>TIMESTAMP_TOLERANCE = parseInt(process.env.TIMESTAMP_TOLERANCE) || 300000\<close>; the
  argument is what \<open>parseInt\<close> returned, \<open>None\<close> for \<open>NaN\<close>.
\<close>

definition TIMESTAMP_TOLERANCE :: "int option \<Rightarrow> int" where
  "TIMESTAMP_TOLERANCE parsed = (case parsed of None \<Rightarrow> 300000 | Some n \<Rightarrow> if n = 0 then 300000 else n)"

text \<open>
  The part of \<open>verifyRequestSignature\<close> after the check of the time stamp: the signed
  message is put together again, and the signature is verified under the Ed25519 key of
  \<open>origin\<close>.
\<close>

definition reconstructAndVerify ::
  "serverLibs \<Rightarrow> string \<Rightarrow> int \<Rightarrow> string \<Rightarrow> string \<Rightarrow> string \<Rightarrow> error + bool" where
  "reconstructAndVerify S origin timestamp destination encryptedMessage signature =
     (let msg = numberToString timestamp @ destination @ encryptedMessage;
          messageBytes = bufferFromUtf8 S msg;
          signatureBytes = bufferFromHex signature in
      bindE (fromJSON (sv_parsePublicKey S) origin) (\<lambda>originKeys.
      bindE (need (ed25519 originKeys)) (\<lambda>k.
      let publicKeyHex = replace0x k;
          publicKey = bufferFromHex publicKeyHex in
      bindE (nacl_verify S messageBytes signatureBytes publicKey) (\<lambda>isValid.
      Inr isValid))))"

text \<open>\<open>verifyRequestSignature\<close>: the \<open>catch\<close> clause returns \<open>false\<close>.\<close>

definition verifyRequestSignature ::
  "serverLibs \<Rightarrow> int \<Rightarrow> int \<Rightarrow> string \<Rightarrow> int \<Rightarrow> string \<Rightarrow> string \<Rightarrow> string \<Rightarrow> bool" where
  "verifyRequestSignature S tolerance now origin timestamp destination encryptedMessage signature =
     (case
        (if \<bar>now - timestamp\<bar> > tolerance then Inr False
         else reconstructAndVerify S origin timestamp destination encryptedMessage signature)
      of Inl _ \<Rightarrow> False | Inr b \<Rightarrow> b)"

subsection \<open>The table of recipients\<close>

record recipient =
  r_id :: nat
  recipient_id :: string
  expo_push_token :: string
  created_at :: int
  updated_at :: int

record database =
  recipients :: "recipient list"
  sqlite_sequence :: nat

text \<open>
  \<^verbatim>\<open>
  INSERT INTO recipients (recipient_id, expo_push_token, updated_at)
  VALUES (?, ?, CURRENT_TIMESTAMP)
  ON CONFLICT(recipient_id)
  DO UPDATE SET expo_push_token = ?, updated_at = CURRENT_TIMESTAMP
  \<close>
  with \<open>CURRENT_TIMESTAMP\<close> as the argument \<open>now\<close>. SQLite takes the next value of the
  \<open>AUTOINCREMENT\<close> counter for the row to insert before it finds the conflict, so the
  counter advances on both paths.
\<close>

definition upsert :: "int \<Rightarrow> string \<Rightarrow> string \<Rightarrow> database \<Rightarrow> database" where
  "upsert now recipientId expoPushToken db =
     (if list_ex (\<lambda>r. recipient_id r = recipientId) (recipients db)
      then db\<lparr>recipients :=
             map (\<lambda>r. if recipient_id r = recipientId
                       then r\<lparr>expo_push_token := expoPushToken, updated_at := now\<rparr> else r)
               (recipients db),
             sqlite_sequence := Suc (sqlite_sequence db)\<rparr>
      else db\<lparr>recipients := recipients db @
               [\<lparr>r_id = Suc (sqlite_sequence db), recipient_id = recipientId,
                 expo_push_token = expoPushToken, created_at = now, updated_at = now\<rparr>],
             sqlite_sequence := Suc (sqlite_sequence db)\<rparr>)"

text \<open>The row that \<open>WHERE recipient_id = ?\<close> selects; \<open>stmt.get\<close> returns the first.\<close>

definition lookup :: "string \<Rightarrow> database \<Rightarrow> recipient option" where
  "lookup recipientId db = find (\<lambda>r. recipient_id r = recipientId) (recipients db)"

subsection \<open>The handlers\<close>

text \<open>
  The answer of a handler: a failure with its status and text, a success, or \<open>Thrown\<close>
  when an exception left the handler before it answered.
\<close>

datatype response =
  Failure nat string
| Registered string
| Sent jsvalue string
| Thrown

text \<open>
  Both handlers log \<open>sanitizeForLog(req.body)\<close> before their first check. Its result is
  only printed; what matters is whether it throws. The fields \<open>recipientId\<close>,
  \<open>destination\<close>, \<open>origin\<close> and \<open>encryptedMessage\<close> are handled inside \<open>try\<close>; the
  other two are not:
  \<^verbatim>\<open>
  if (sanitized.expoPushToken) {
    const token = sanitized.expoPushToken;
    sanitized.expoPushToken = token.length > 30
      ? `${token.substring(0, 20)}...${token.slice(-10)}` : '[token]';
  }
  if (sanitized.signature) {
    sanitized.signature =
      `${sanitized.signature.substring(0, 8)}...${sanitized.signature.slice(-8)}`;
  }
  \<close>
  \<open>substring\<close> exists on strings only: the first throws on an object or array with a
  \<open>length\<close> over 30, the second on every value that is truthy and not a string.
\<close>

definition sanitizeForLog :: "jsvalue \<Rightarrow> jsvalue \<Rightarrow> error + unit" where
  "sanitizeForLog expoPushToken signature =
     bindE (if truthy expoPushToken
            then (case expoPushToken of
                    Object lengthOver30 \<Rightarrow> if lengthOver30 then Inl TypeError else Inr ()
                  | _ \<Rightarrow> Inr ())
            else Inr ()) (\<lambda>_.
     if truthy signature
     then (case signature of String _ \<Rightarrow> Inr () | _ \<Rightarrow> Inl TypeError)
     else Inr ())"

record registerBody =
  rb_recipientId :: jsvalue
  rb_expoPushToken :: jsvalue
  rb_signature :: jsvalue

text \<open>The string, or the number, of a value that an earlier check has found to be one.\<close>

definition stringOf :: "jsvalue \<Rightarrow> string" where
  "stringOf v = (case v of String s \<Rightarrow> s | _ \<Rightarrow> [])"

definition post_register :: "serverLibs \<Rightarrow> int \<Rightarrow> database \<Rightarrow> registerBody \<Rightarrow> response \<times> database" where
  "post_register S now db body =
     (let recipientId = rb_recipientId body; expoPushToken = rb_expoPushToken body in
      if (case sanitizeForLog expoPushToken (rb_signature body) of Inl _ \<Rightarrow> True | Inr _ \<Rightarrow> False)
      then (Thrown, db)
      else if \<not> truthy recipientId \<or> \<not> truthy expoPushToken
      then (Failure 400 ''Missing required fields: recipientId, expoPushToken'', db)
      else if \<not> isValidKeyObject S recipientId
      then (Failure 400 ''Invalid recipientId: must be JSON with ed25519 and x25519 keys'', db)
      else if \<not> (case expoPushToken of String t \<Rightarrow> isExpoPushToken S t | _ \<Rightarrow> False)
      then (Failure 400 ''Invalid Expo push token format'', db)
      else (Registered (stringOf recipientId),
            upsert now (stringOf recipientId) (stringOf expoPushToken) db))"

record sendBody =
  sb_recipientId :: jsvalue
  sb_sound :: jsvalue
  sb_badge :: jsvalue
  sb_channelId :: jsvalue
  sb_expoPushToken :: jsvalue
  sb_encryptedMessage :: jsvalue
  sb_destination :: jsvalue
  sb_origin :: jsvalue
  sb_timestamp :: jsvalue
  sb_signature :: jsvalue

text \<open>
  What the handler of \<open>/send\<close> did besides answering, in order: the call of
  \<open>verifyRequestSignature\<close>, the query of the table, the push.
\<close>

datatype event = VerifyRequestSignature | LookupRecipient | SendPush

definition forward :: "serverLibs \<Rightarrow> database \<Rightarrow> sendBody \<Rightarrow> response \<times> event list" where
  "forward S db body =
     (case lookup (stringOf (sb_destination body)) db of
        None \<Rightarrow> (Failure 404 ''Recipient not found'', [LookupRecipient])
      | Some recipient \<Rightarrow>
          (case fromJSON (sv_parseEncryptedMessage S) (stringOf (sb_encryptedMessage body)) of
             Inl _ \<Rightarrow> (Failure 500 ''Failed to send notification'', [LookupRecipient])
           | Inr parsed \<Rightarrow>
               (case sendPushNotifications S
                  \<lparr>pm_to = expo_push_token recipient, pm_origin = sb_origin body,
                   pm_destination = sb_destination body,
                   pm_encryptedMessage =
                     \<lparr>em_encrypted = em_encrypted parsed, em_nonce = em_nonce parsed,
                      em_signature = em_signature parsed\<rparr>,
                   pm_sound = (if truthy (sb_sound body) then sb_sound body else String ''default''),
                   pm_badge = sb_badge body,
                   pm_channelId = (if truthy (sb_channelId body) then sb_channelId body else Undefined)\<rparr>
                of Inl _ \<Rightarrow> (Failure 500 ''Failed to send notification'', [LookupRecipient, SendPush])
                 | Inr ticket \<Rightarrow> (Sent (sb_recipientId body) ticket, [LookupRecipient, SendPush]))))"

text \<open>
  The checks of the shape of a request to \<open>/send\<close>, in the order of the source: the
  text of the first one that fails, each answered with status 400.
\<close>

definition shapeError :: "serverLibs \<Rightarrow> sendBody \<Rightarrow> string option" where
  "shapeError S body =
     (let encryptedMessage = sb_encryptedMessage body; destination = sb_destination body;
          origin = sb_origin body; timestamp = sb_timestamp body; signature = sb_signature body in
      if \<not> truthy encryptedMessage \<or> \<not> truthy destination \<or> \<not> truthy timestamp \<or> \<not> truthy signature
      then Some ''Missing required fields: encryptedMessage, destination, timestamp, signature''
      else if \<not> (case timestamp of Number t \<Rightarrow> \<not> t \<le> 0 | _ \<Rightarrow> False)
      then Some ''Invalid timestamp: must be a positive number''
      else if \<not> (case signature of String sg \<Rightarrow> hexPattern128 sg | _ \<Rightarrow> False)
      then Some ''Invalid signature: must be 128-character hex string''
      else if \<not> isValidKeyObject S destination
      then Some ''Invalid destination format: must be JSON with ed25519 and x25519 keys''
      else if truthy origin \<and> \<not> isValidKeyObject S origin
      then Some ''Invalid origin format: must be JSON with ed25519 and x25519 keys''
      else if \<not> isValidEncryptedMessage S encryptedMessage
      then Some ''Invalid encrypted message format: must contain encrypted, signature, and nonce hex strings''
      else None)"

definition numberOf :: "jsvalue \<Rightarrow> int" where
  "numberOf v = (case v of Number n \<Rightarrow> n | _ \<Rightarrow> 0)"

definition post_send ::
  "serverLibs \<Rightarrow> int \<Rightarrow> int \<Rightarrow> database \<Rightarrow> sendBody \<Rightarrow> response \<times> event list" where
  "post_send S tolerance now db body =
     (case sanitizeForLog (sb_expoPushToken body) (sb_signature body) of
        Inl _ \<Rightarrow> (Thrown, [])
      | Inr _ \<Rightarrow>
     (case shapeError S body of
        Some text \<Rightarrow> (Failure 400 text, [])
      | None \<Rightarrow>
          if \<not> truthy (sb_origin body)
          then (Failure 401 ''Unauthorized: Invalid or expired signature'', [])
          else if \<not> verifyRequestSignature S tolerance now (stringOf (sb_origin body))
                      (numberOf (sb_timestamp body)) (stringOf (sb_destination body))
                      (stringOf (sb_encryptedMessage body)) (stringOf (sb_signature body))
          then (Failure 401 ''Unauthorized: Invalid or expired signature'', [VerifyRequestSignature])
          else (let (r, evs) = forward S db body in (r, VerifyRequestSignature # evs))))"


section \<open>Auxiliary definitions for the proofs\<close>

text \<open>What \<open>hexToBytes\<close> computes, without the loop: one byte for each pair of characters.\<close>

fun hexPairs :: "string \<Rightarrow> string list" where
  "hexPairs (a # b # r) = [a, b] # hexPairs r"
| "hexPairs _ = []"

definition hexByte :: "string \<Rightarrow> byte" where
  "hexByte p = toUint8 (parseInt16 p)"

definition hex2 :: "byte \<Rightarrow> string" where
  "hex2 b = padStart 2 (CHR ''0'') (toString16 (unat b))"

section \<open>A small instance of the libraries\<close>

text \<open>
  An instance of the library parameters on which the model can be run. It has the
  algebraic laws the theorems ask of the real libraries (a signature verifies under the
  public key of its signer, the two sides of a key agreement get the same secret,
  decryption undoes encryption and rejects a wrong tag, parsing undoes printing on the
  documents used here) and no security at all.
\<close>

definition toyPublic :: "bytes \<Rightarrow> bytes" where
  "toyPublic sk = map (\<lambda>b. b + 1) sk"

definition toyDigest :: "bytes \<Rightarrow> bytes" where
  "toyDigest m = take 32 (m @ replicate 32 0)"

definition toySign :: "bytes \<Rightarrow> bytes \<Rightarrow> error + bytes" where
  "toySign m sk = Inr (toyPublic sk @ toyDigest m)"

definition toyVerify :: "bytes \<Rightarrow> bytes \<Rightarrow> bytes \<Rightarrow> error + bool" where
  "toyVerify sg m pk = (if length sg = 64 then Inr (sg = pk @ toyDigest m) else Inl LibraryError)"

definition toyShared :: "bytes \<Rightarrow> bytes \<Rightarrow> error + bytes" where
  "toyShared sk pk = Inr (map (\<lambda>(a, b). a + b) (zip sk pk))"

definition toyTag :: "bytes \<Rightarrow> bytes \<Rightarrow> bytes" where
  "toyTag k n = take 16 (n @ k @ replicate 16 0)"

definition toyEncrypt :: "bytes \<Rightarrow> bytes \<Rightarrow> bytes \<Rightarrow> error + bytes" where
  "toyEncrypt k n pt =
     (if length n = 12 then Inr (map (\<lambda>b. b + 1) pt @ toyTag k n) else Inl LibraryError)"

definition toyDecrypt :: "bytes \<Rightarrow> bytes \<Rightarrow> bytes \<Rightarrow> error + bytes" where
  "toyDecrypt k n ct =
     (if length n = 12
      then if length ct < 16 then Inl LibraryError
           else if drop (length ct - 16) ct = toyTag k n
                then Inr (map (\<lambda>b. b - 1) (take (length ct - 16) ct))
                else Inl LibraryError
      else Inl LibraryError)"

definition toyEncode :: "string \<Rightarrow> bytes" where
  "toyEncode s = map (\<lambda>c. word_of_nat (of_char c)) s"

definition toyDecode :: "bytes \<Rightarrow> string" where
  "toyDecode bs = map (\<lambda>b. char_of (unat b)) bs"

text \<open>Documents are printed as their fields with a separator between them.\<close>

fun splitOn :: "char \<Rightarrow> string \<Rightarrow> string \<Rightarrow> string list" where
  "splitOn c acc [] = [rev acc]"
| "splitOn c acc (x # xs) = (if x = c then rev acc # splitOn c [] xs else splitOn c (x # acc) xs)"

definition opt :: "string \<Rightarrow> string option" where
  "opt s = (if s = [] then None else Some s)"

definition unopt :: "string option \<Rightarrow> string" where
  "unopt v = (case v of None \<Rightarrow> [] | Some s \<Rightarrow> s)"

definition readDecimal :: "string \<Rightarrow> int option" where
  "readDecimal s = (if s = [] then None else Some (foldl (\<lambda>a c. 10 * a + (of_char c - 48)) 0 s))"

definition toyParsePublicKey :: "string \<Rightarrow> error + publicKeyData option" where
  "toyParsePublicKey s =
     (if s = ''null'' then Inr None
      else case splitOn (CHR ''|'') [] s of
             [e, x] \<Rightarrow> Inr (Some \<lparr>ed25519 = opt e, x25519 = opt x\<rparr>)
           | _ \<Rightarrow> Inl SyntaxError)"

definition toyStringifyPublicKey :: "publicKeyData \<Rightarrow> string" where
  "toyStringifyPublicKey d = unopt (ed25519 d) @ ''|'' @ unopt (x25519 d)"

definition toyParseKeyPair :: "string \<Rightarrow> error + keyPair option" where
  "toyParseKeyPair s =
     (if s = ''null'' then Inr None
      else case splitOn (CHR ''|'') [] s of
             [a, b, c, d] \<Rightarrow>
               Inr (Some \<lparr>kp_ed25519 = Some \<lparr>kh_publicKey = opt a, kh_privateKey = opt b\<rparr>,
                          kp_x25519 = Some \<lparr>kh_publicKey = opt c, kh_privateKey = opt d\<rparr>\<rparr>)
           | _ \<Rightarrow> Inl SyntaxError)"

definition toyStringifyKeyPair :: "keyPair \<Rightarrow> string" where
  "toyStringifyKeyPair kp =
     (case (kp_ed25519 kp, kp_x25519 kp) of
        (Some e, Some x) \<Rightarrow>
          unopt (kh_publicKey e) @ ''|'' @ unopt (kh_privateKey e) @ ''|'' @
          unopt (kh_publicKey x) @ ''|'' @ unopt (kh_privateKey x)
      | _ \<Rightarrow> ''{}'')"

definition toyParsePayload :: "string \<Rightarrow> error + payload option" where
  "toyParsePayload s =
     (if s = ''null'' then Inr None
      else case splitOn (CHR '';'') [] s of
             [t, m, k] \<Rightarrow> Inr (Some \<lparr>pl_publicKey = opt k, pl_message = opt m,
                                     pl_timestamp = readDecimal t\<rparr>)
           | _ \<Rightarrow> Inl SyntaxError)"

definition toyStringifyPayload :: "payload \<Rightarrow> string" where
  "toyStringifyPayload p =
     (case pl_timestamp p of None \<Rightarrow> [] | Some t \<Rightarrow> numberToString t) @ '';'' @
     unopt (pl_message p) @ '';'' @ unopt (pl_publicKey p)"

definition toyParseEncryptedMessage :: "string \<Rightarrow> error + encryptedMessage option" where
  "toyParseEncryptedMessage s =
     (if s = ''null'' then Inr None
      else case splitOn (CHR ''|'') [] s of
             [e, n, g] \<Rightarrow> Inr (Some \<lparr>em_encrypted = opt e, em_nonce = opt n, em_signature = opt g\<rparr>)
           | _ \<Rightarrow> Inl SyntaxError)"

definition toyStringifyEncryptedMessage :: "encryptedMessage \<Rightarrow> string" where
  "toyStringifyEncryptedMessage m =
     unopt (em_encrypted m) @ ''|'' @ unopt (em_nonce m) @ ''|'' @ unopt (em_signature m)"

definition toyLibs :: libs where
  "toyLibs =
     \<lparr>ed25519_getPublicKey = (\<lambda>sk. Inr (toyPublic sk)),
      ed25519_sign = toySign,
      ed25519_verify = toyVerify,
      x25519_getPublicKey = (\<lambda>sk. Inr (toyPublic sk)),
      x25519_getSharedSecret = toyShared,
      chacha20poly1305_encrypt = toyEncrypt,
      chacha20poly1305_decrypt = toyDecrypt,
      sha256 = toyDigest,
      textEncode = toyEncode,
      textDecode = toyDecode,
      parsePublicKey = toyParsePublicKey,
      stringifyPublicKey = toyStringifyPublicKey,
      parseKeyPair = toyParseKeyPair,
      stringifyKeyPair = toyStringifyKeyPair,
      parsePayload = toyParsePayload,
      stringifyPayload = toyStringifyPayload,
      parseEncryptedMessage = toyParseEncryptedMessage,
      stringifyEncryptedMessage = toyStringifyEncryptedMessage\<rparr>"

definition toyServerLibs :: serverLibs where
  "toyServerLibs =
     \<lparr>sv_parsePublicKey = toyParsePublicKey,
      sv_parseEncryptedMessage = toyParseEncryptedMessage,
      nacl_verify = (\<lambda>m sg pk. toyVerify sg m pk),
      bufferFromUtf8 = toyEncode,
      isExpoPushToken = (\<lambda>t. take 18 t = ''ExponentPushToken['' \<and> last t = CHR '']''),
      sendPushNotifications = (\<lambda>m. Inr ''ok'')\<rparr>"


section \<open>Sample data\<close>

text \<open>
  Two devices, A and B, with the keys the small instance derives from their seeds, one
  message from A to B, and the request that carries it to the relay.
\<close>

definition seedA :: bytes where
  "seedA = [3, 14, 15, 92, 65, 35, 89, 79, 32, 38, 46, 26, 43, 38, 32, 79, 50, 28, 84, 197, 16, 93, 99, 37, 51, 58, 20, 97, 49, 44, 59, 230]"

definition seedB :: bytes where
  "seedB = [27, 18, 28, 182, 84, 59, 204, 52, 35, 36, 28, 74, 71, 35, 26, 62, 49, 77, 57, 24, 70, 93, 69, 99, 59, 57, 249, 66, 96, 7, 42, 136]"

definition keysA :: storedKeys where
  "keysA =
     \<lparr>publicKey = ''040f105d42245a5021272f1b2c272150331d55c6115e6426343b1562322d3ce7|040f105d42245a5021272f1b2c272150331d55c6115e6426343b1562322d3ce7'',
      privateKey = ''040f105d42245a5021272f1b2c272150331d55c6115e6426343b1562322d3ce7|030e0f5c4123594f20262e1a2b26204f321c54c5105d6325333a1461312c3be6|040f105d42245a5021272f1b2c272150331d55c6115e6426343b1562322d3ce7|030e0f5c4123594f20262e1a2b26204f321c54c5105d6325333a1461312c3be6''\<rparr>"

definition keysB :: storedKeys where
  "keysB =
     \<lparr>publicKey = ''1c131db7553ccd3524251d4b48241b3f324e3a19475e46643c3afa4361082b89|1c131db7553ccd3524251d4b48241b3f324e3a19475e46643c3afa4361082b89'',
      privateKey = ''1c131db7553ccd3524251d4b48241b3f324e3a19475e46643c3afa4361082b89|1b121cb6543bcc3423241c4a47231a3e314d3918465d45633b39f94260072a88|1c131db7553ccd3524251d4b48241b3f324e3a19475e46643c3afa4361082b89|1b121cb6543bcc3423241c4a47231a3e314d3918465d45633b39f94260072a88''\<rparr>"

definition storeA :: secureStore where
  "storeA = [PUBLIC_KEY \<mapsto> publicKey keysA, PRIVATE_KEY \<mapsto> privateKey keysA]"

definition storeB :: secureStore where
  "storeB = [PUBLIC_KEY \<mapsto> publicKey keysB, PRIVATE_KEY \<mapsto> privateKey keysB]"

definition envA :: environment where
  "envA = \<lparr>env_now = 1700000000000, env_seeds = (seedA, seedA),
            env_randomBytes12 = [5, 23, 42, 7, 99, 180, 3, 250, 61, 17, 8, 200]\<rparr>"

definition envB :: environment where
  "envB = \<lparr>env_now = 1700000000500, env_seeds = (seedB, seedB),
            env_randomBytes12 = [0, 0, 0, 0, 0, 0, 0, 0, 0, 0, 0, 0]\<rparr>"

text \<open>The message \<open>hi\<close> from A to B, as \<open>encryptMessage\<close> produces it on A's device.\<close>

definition cipherAB :: string where
  "cipherAB = ''323831313131313131313131313c696a3c313531673231366535333335366236313332333833673263336433383332363134343265363664373232366637353337343534633236373334333365346466387d3135316732313665353333353662363133323338336732633364333833323631343432653636643732323666373533373435346332363733343333653464663805172a0763b403fa3d1108c81f212c13''"

definition nonceAB :: string where
  "nonceAB = ''05172a0763b403fa3d1108c8''"

definition signatureAB :: string where
  "signatureAB = ''040f105d42245a5021272f1b2c272150331d55c6115e6426343b1562322d3ce7323831313131313131313131313c696a3c313531673231366535333335366236''"

definition sentAB :: encryptResult where
  "sentAB = \<lparr>er_destination = publicKey keysB,
              er_message = cipherAB @ ''|'' @ nonceAB @ ''|'' @ signatureAB\<rparr>"


definition hiFromA :: decrypted where
  "hiFromA = \<lparr>d_senderPublicKey = Some (publicKey keysA), d_message = Some ''hi'',
               d_timestamp = Some 1700000000000\<rparr>"

text \<open>The same message with the lowest bit of the last byte of its signature flipped.\<close>

definition signatureFlipped :: string where
  "signatureFlipped = ''040f105d42245a5021272f1b2c272150331d55c6115e6426343b1562322d3ce7323831313131313131313131313c696a3c313531673231366535333335366237''"

definition incomingFlipped :: incoming where
  "incomingFlipped =
     \<lparr>in_origin = Some (publicKey keysA), in_destination = Some (publicKey keysB),
      in_encryptedMessage =
        Some \<lparr>em_encrypted = Some cipherAB, em_nonce = Some nonceAB,
              em_signature = Some signatureFlipped\<rparr>\<rparr>"





text \<open>The request A's device posts to \<open>/send\<close> at time 1700000000000, and variants of it.\<close>

definition requestSignatureAB :: string where
  "requestSignatureAB = ''040f105d42245a5021272f1b2c272150331d55c6115e6426343b1562322d3ce73137303030303030303030303031633133316462373535336363643335323432''"

definition requestAB :: sendBody where
  "requestAB =
     \<lparr>sb_recipientId = Undefined, sb_sound = Undefined, sb_badge = Undefined,
      sb_channelId = Undefined, sb_expoPushToken = Undefined,
      sb_encryptedMessage = String (er_message sentAB),
      sb_destination = String (publicKey keysB), sb_origin = String (publicKey keysA),
      sb_timestamp = Number 1700000000000, sb_signature = String requestSignatureAB\<rparr>"

definition requestForged :: sendBody where
  "requestForged = requestAB\<lparr>sb_signature := String ''040f105d42245a5021272f1b2c272150331d55c6115e6426343b1562322d3ce73137303030303030303030303031633133316462373535336363643335323433''\<rparr>"


definition emptyDb :: database where
  "emptyDb = \<lparr>recipients = [], sqlite_sequence = 0\<rparr>"

section \<open>Hexadecimal strings: decoding undoes encoding\<close>

lemma length_hexPairs: "length (hexPairs s) = length s div 2"
  by (induction s rule: hexPairs.induct) auto

lemma hexPairs_drop:
  "Suc i < length hex \<Longrightarrow> hexPairs (drop i hex) = substr hex i 2 # hexPairs (drop (i + 2) hex)"
proof -
  assume a: "Suc i < length hex"
  then obtain a b r where d: "drop i hex = a # b # r"
    by (metis Cons_nth_drop_Suc Suc_lessD)
  have "drop (i + 2) hex = drop 2 (drop i hex)" by (simp add: add.commute)
  with d show ?thesis by (simp add: substr_def)
qed

lemma hexPairs_short: "length s < 2 \<Longrightarrow> hexPairs s = []"
  by (cases s rule: hexPairs.cases) auto

lemma hexToBytes_loop_pairs:
  "length bs = length hex div 2 \<Longrightarrow> even i \<Longrightarrow>
   hexToBytes_loop hex i bs = take (i div 2) bs @ map hexByte (hexPairs (drop i hex))"
proof (induction hex i bs rule: hexToBytes_loop.induct)
  case (1 hex i bs)
  show ?case
  proof (cases "i < length hex")
    case False
    then have "i div 2 \<ge> length bs" using "1.prems" by auto
    with False show ?thesis by (simp add: hexToBytes_loop.simps [of hex i bs])
  next
    case True
    let ?v = "toUint8 (parseInt16 (substr hex i 2))"
    have ih: "hexToBytes_loop hex (i + 2) (bs[i div 2 := ?v]) =
        take ((i + 2) div 2) (bs[i div 2 := ?v]) @ map hexByte (hexPairs (drop (i + 2) hex))"
      using "1.IH" [OF True] "1.prems" by simp
    show ?thesis
    proof (cases "Suc i < length hex")
      case True
      then have lt: "i div 2 < length bs" using "1.prems" by auto
      have "take ((i + 2) div 2) (bs[i div 2 := ?v]) = take (i div 2) bs @ [?v]"
        using lt by (simp add: take_Suc_conv_app_nth)
      with ih True \<open>i < length hex\<close> show ?thesis
        by (simp add: hexToBytes_loop.simps [of hex i bs] hexPairs_drop hexByte_def)
    next
      case False
      with True have e: "length hex = Suc i" by simp
      then have ge: "length bs \<le> i div 2" using "1.prems" by auto
      have "hexPairs (drop i hex) = []" using e by (intro hexPairs_short) simp
      moreover have "hexPairs (drop (i + 2) hex) = []" using e by simp
      moreover have "bs[i div 2 := ?v] = bs" using ge by (simp add: list_update_beyond)
      ultimately show ?thesis using ih ge True
        by (simp add: hexToBytes_loop.simps [of hex i bs])
    qed
  qed
qed

lemma hexToBytes_pairs [code]: "hexToBytes hex = map hexByte (hexPairs hex)"
  by (simp add: hexToBytes_def hexToBytes_loop_pairs)

lemma hex2_digits: "hex2 b = [hexDigit (unat b div 16), hexDigit (unat b mod 16)]"
proof -
  have lt: "unat b < 256" using unsigned_less [of b] by simp
  show ?thesis
  proof (cases "unat b < 16")
    case True
    then show ?thesis by (simp add: hex2_def padStart_def toString16.simps [of "unat b"] hexDigit_def)
  next
    case False
    then have "unat b div 16 < 16" using lt by simp
    then show ?thesis using False
      by (simp add: hex2_def padStart_def toString16.simps [of "unat b"] toString16.simps [of "unat b div 16"])
  qed
qed

lemma hex_cases:
  "d < 16 \<Longrightarrow> d = 0 \<or> d = 1 \<or> d = 2 \<or> d = 3 \<or> d = 4 \<or> d = 5 \<or> d = 6 \<or> d = 7 \<or> d = 8
     \<or> d = 9 \<or> d = 10 \<or> d = 11 \<or> d = 12 \<or> d = 13 \<or> d = 14 \<or> d = (15::nat)"
  by arith

lemma digitValue_hexDigit: "d < 16 \<Longrightarrow> digitValue (hexDigit d) = Some d"
proof -
  assume "d < 16"
  from hex_cases [OF this] show ?thesis
    by (elim disjE) (simp_all add: digitValue_def hexDigit_def)
qed

lemma hexDigit_plain:
  "d < 16 \<Longrightarrow> \<not> isWhiteSpace (hexDigit d) \<and> hexDigit d \<noteq> CHR ''-'' \<and> hexDigit d \<noteq> CHR ''+''
     \<and> hexDigit d \<noteq> CHR ''x'' \<and> hexDigit d \<noteq> CHR ''X''"
proof -
  assume "d < 16"
  from hex_cases [OF this] show ?thesis
    by (elim disjE) (simp_all add: isWhiteSpace_def hexDigit_def)
qed

lemma parseInt16_digits:
  "h < 16 \<Longrightarrow> l < 16 \<Longrightarrow> parseInt16 [hexDigit h, hexDigit l] = Some (int (16 * h + l))"
  using hexDigit_plain [of h] hexDigit_plain [of l]
  by (simp add: parseInt16_def stripPrefix0x_def digitValue_hexDigit)

lemma hexByte_hex2: "hexByte (hex2 b) = b"
proof -
  have lt: "unat b < 256" using unsigned_less [of b] by simp
  then have "unat b div 16 < 16" by simp
  then have "parseInt16 (hex2 b) = Some (int (unat b))"
    by (simp add: hex2_digits parseInt16_digits)
  then show ?thesis by (simp add: hexByte_def toUint8_def)
qed

lemma toHex_Cons: "toHex (b # bs) = hex2 b @ toHex bs"
  by (simp add: toHex_def hex2_def)

lemma hexPairs_toHex: "hexPairs (toHex bs) = map hex2 bs"
proof (induction bs)
  case Nil
  show ?case by (simp add: toHex_def)
next
  case (Cons b bs)
  have "hexPairs (hex2 b @ toHex bs) = hex2 b # hexPairs (toHex bs)"
    by (simp add: hex2_digits)
  with Cons show ?case by (simp add: toHex_Cons)
qed

lemma hexToBytes_toHex: "hexToBytes (toHex bs) = bs"
  by (simp add: hexToBytes_pairs hexPairs_toHex hexByte_hex2 map_idI)

lemma length_toHex: "length (toHex bs) = 2 * length bs"
  by (induction bs) (simp_all add: toHex_Cons hex2_digits, simp add: toHex_def)


section \<open>The table of recipients: the last write wins\<close>

lemma find_map_update:
  "find (\<lambda>r. recipient_id r = i)
     (map (\<lambda>r. if recipient_id r = i then r\<lparr>expo_push_token := t, updated_at := n\<rparr> else r) xs) =
   map_option (\<lambda>r. r\<lparr>expo_push_token := t, updated_at := n\<rparr>) (find (\<lambda>r. recipient_id r = i) xs)"
  by (induction xs) auto

lemma find_append_new:
  "\<not> list_ex P xs \<Longrightarrow> P x \<Longrightarrow> find P (xs @ [x]) = Some x"
  by (induction xs) auto

lemma list_ex_find: "list_ex P xs \<Longrightarrow> \<exists>x. find P xs = Some x \<and> P x"
  by (induction xs) auto

lemma lookup_upsert:
  "\<exists>r. lookup i (upsert n i t db) = Some r \<and> recipient_id r = i \<and> expo_push_token r = t
     \<and> updated_at r = n"
proof (cases "list_ex (\<lambda>r. recipient_id r = i) (recipients db)")
  case True
  from list_ex_find [OF True] obtain x where "find (\<lambda>r. recipient_id r = i) (recipients db) = Some x"
    and "recipient_id x = i" by blast
  with True show ?thesis by (simp add: lookup_def upsert_def find_map_update)
next
  case False
  then show ?thesis by (simp add: lookup_def upsert_def find_append_new)
qed

lemma list_ex_upsert: "list_ex (\<lambda>r. recipient_id r = i) (recipients (upsert n i t db))"
  using lookup_upsert [of i n t db]
  by (auto simp: lookup_def list_ex_iff find_Some_iff) (metis nth_mem)

lemma upsert_rows_same_twice:
  "recipients (upsert n i t (upsert n i t db)) = recipients (upsert n i t db)"
proof -
  have ex: "list_ex (\<lambda>r. recipient_id r = i) (recipients (upsert n i t db))"
    by (rule list_ex_upsert)
  have "map (\<lambda>r. if recipient_id r = i then r\<lparr>expo_push_token := t, updated_at := n\<rparr> else r)
          (recipients (upsert n i t db)) = recipients (upsert n i t db)"
    by (cases "list_ex (\<lambda>r. recipient_id r = i) (recipients db)")
       (auto simp: upsert_def list_ex_iff intro!: map_idI)
  then show ?thesis
    using ex by (simp add: upsert_def [of n i t "upsert n i t db"])
qed

text \<open>
  Claim C8. For every identity \<open>i\<close> and tokens \<open>t1\<close>, \<open>t2\<close>, in any table: after
  \<open>upsert(i, t1)\<close> the record of \<open>i\<close> holds \<open>t1\<close> and the time of that write; after a
  following \<open>upsert(i, t2)\<close> it holds \<open>t2\<close> and the time of the second write (the last
  write wins, and each write sets \<open>updated_at\<close>); repeating \<open>upsert(i, t2)\<close> leaves the
  token \<open>t2\<close>, and at the same time stamp leaves every row of the table as it was.
\<close>

theorem upsert_last_write_wins:
  "map_option expo_push_token (lookup i (upsert n1 i t1 db)) = Some t1
   \<and> map_option updated_at (lookup i (upsert n1 i t1 db)) = Some n1
   \<and> map_option expo_push_token (lookup i (upsert n2 i t2 (upsert n1 i t1 db))) = Some t2
   \<and> map_option updated_at (lookup i (upsert n2 i t2 (upsert n1 i t1 db))) = Some n2
   \<and> map_option expo_push_token (lookup i (upsert n3 i t2 (upsert n2 i t2 (upsert n1 i t1 db)))) = Some t2
   \<and> map_option updated_at (lookup i (upsert n3 i t2 (upsert n2 i t2 (upsert n1 i t1 db)))) = Some n3
   \<and> recipients (upsert n2 i t2 (upsert n2 i t2 (upsert n1 i t1 db))) =
       recipients (upsert n2 i t2 (upsert n1 i t1 db))"
proof -
  have a: "\<And>n t d. map_option expo_push_token (lookup i (upsert n i t d)) = Some t"
    using lookup_upsert by (metis option.simps(9))
  have b: "\<And>n t d. map_option updated_at (lookup i (upsert n i t d)) = Some n"
    using lookup_upsert by (metis option.simps(9))
  show ?thesis by (simp only: a b upsert_rows_same_twice simp_thms)
qed

section \<open>Exceptions and absent values\<close>

lemma bindE_Inr [simp]: "bindE (Inr v) f = f v"
  by (simp add: bindE_def)

lemma bindE_Inl [simp]: "bindE (Inl e) f = Inl e"
  by (simp add: bindE_def)

lemma bindE_eq_Inr: "bindE m f = Inr r \<longleftrightarrow> (\<exists>v. m = Inr v \<and> f v = Inr r)"
  by (cases m) simp_all

lemma need_Some [simp]: "need (Some x) = Inr x"
  by (simp add: need_def)

lemma need_None [simp]: "need None = Inl TypeError"
  by (simp add: need_def)

lemma hexToBytesU_toHex [simp]: "hexToBytesU (Some (toHex bs)) = Inr bs"
  by (simp add: hexToBytesU_def hexToBytes_toHex)


section \<open>Key generation\<close>

lemma keyPairObject_Inr:
  assumes "keyPairObject L seed = Inr kp"
  shows "\<exists>edPub xPub. ed25519_getPublicKey L seed = Inr edPub \<and> x25519_getPublicKey L seed = Inr xPub
     \<and> kp = \<lparr>kp_ed25519 = Some \<lparr>kh_publicKey = Some (toHex edPub), kh_privateKey = Some (toHex seed)\<rparr>,
             kp_x25519 = Some \<lparr>kh_publicKey = Some (toHex xPub), kh_privateKey = Some (toHex seed)\<rparr>\<rparr>"
  using assms by (auto simp: keyPairObject_def bindE_eq_Inr)

lemma generateKeyPair_Inr:
  assumes "generateKeyPair L seed = Inr ks"
  shows "\<exists>edPub xPub. ed25519_getPublicKey L seed = Inr edPub \<and> x25519_getPublicKey L seed = Inr xPub
     \<and> keyPairObject L seed =
          Inr \<lparr>kp_ed25519 = Some \<lparr>kh_publicKey = Some (toHex edPub), kh_privateKey = Some (toHex seed)\<rparr>,
               kp_x25519 = Some \<lparr>kh_publicKey = Some (toHex xPub), kh_privateKey = Some (toHex seed)\<rparr>\<rparr>
     \<and> publicKey ks = stringifyPublicKey L \<lparr>ed25519 = Some (toHex edPub), x25519 = Some (toHex xPub)\<rparr>
     \<and> privateKey ks = stringifyKeyPair L
          \<lparr>kp_ed25519 = Some \<lparr>kh_publicKey = Some (toHex edPub), kh_privateKey = Some (toHex seed)\<rparr>,
           kp_x25519 = Some \<lparr>kh_publicKey = Some (toHex xPub), kh_privateKey = Some (toHex seed)\<rparr>\<rparr>"
proof -
  from assms obtain kp where kp: "keyPairObject L seed = Inr kp"
    by (auto simp: generateKeyPair_def bindE_eq_Inr)
  from keyPairObject_Inr [OF kp] obtain edPub xPub where
    e: "ed25519_getPublicKey L seed = Inr edPub" and x: "x25519_getPublicKey L seed = Inr xPub"
    and k: "kp = \<lparr>kp_ed25519 = Some \<lparr>kh_publicKey = Some (toHex edPub), kh_privateKey = Some (toHex seed)\<rparr>,
             kp_x25519 = Some \<lparr>kh_publicKey = Some (toHex xPub), kh_privateKey = Some (toHex seed)\<rparr>\<rparr>"
    by blast
  from assms kp k have "ks = \<lparr>publicKey = stringifyPublicKey L \<lparr>ed25519 = Some (toHex edPub), x25519 = Some (toHex xPub)\<rparr>,
       privateKey = stringifyKeyPair L kp\<rparr>"
    by (simp add: generateKeyPair_def)
  with e x kp k show ?thesis by auto
qed

text \<open>
  Claim C9. For every key pair that \<open>generateKeyPair\<close> returns for a seed, the stored
  private key is the printed \<open>keyPair\<close> object, whose Ed25519 private key and X25519
  private key are both the hexadecimal form of the seed: \<open>hexToBytes\<close> gives back the same
  bytes, the seed, for both, and the form has two characters for each byte (64 for the 32
  bytes of a seed).
\<close>

theorem one_seed_both_private_keys:
  assumes "generateKeyPair L seed = Inr ks"
  shows "\<exists>kp e x. keyPairObject L seed = Inr kp \<and> privateKey ks = stringifyKeyPair L kp
     \<and> kp_ed25519 kp = Some e \<and> kp_x25519 kp = Some x
     \<and> kh_privateKey e = Some (toHex seed) \<and> kh_privateKey x = Some (toHex seed)
     \<and> hexToBytesU (kh_privateKey e) = Inr seed \<and> hexToBytesU (kh_privateKey x) = Inr seed
     \<and> length (toHex seed) = 2 * length seed"
proof -
  from generateKeyPair_Inr [OF assms] obtain edPub xPub where
    "keyPairObject L seed =
          Inr \<lparr>kp_ed25519 = Some \<lparr>kh_publicKey = Some (toHex edPub), kh_privateKey = Some (toHex seed)\<rparr>,
               kp_x25519 = Some \<lparr>kh_publicKey = Some (toHex xPub), kh_privateKey = Some (toHex seed)\<rparr>\<rparr>"
    and "privateKey ks = stringifyKeyPair L
          \<lparr>kp_ed25519 = Some \<lparr>kh_publicKey = Some (toHex edPub), kh_privateKey = Some (toHex seed)\<rparr>,
           kp_x25519 = Some \<lparr>kh_publicKey = Some (toHex xPub), kh_privateKey = Some (toHex seed)\<rparr>\<rparr>"
    by blast
  then show ?thesis by (simp add: length_toHex)
qed

lemma generate_keysA: "generateKeyPair toyLibs seedA = Inr keysA"
  by code_simp

theorem one_seed_both_private_keys_witness:
  "\<exists>kp e x. keyPairObject toyLibs seedA = Inr kp \<and> privateKey keysA = stringifyKeyPair toyLibs kp
     \<and> kp_ed25519 kp = Some e \<and> kp_x25519 kp = Some x
     \<and> kh_privateKey e = Some (toHex seedA) \<and> kh_privateKey x = Some (toHex seedA)
     \<and> hexToBytesU (kh_privateKey e) = Inr seedA \<and> hexToBytesU (kh_privateKey x) = Inr seedA
     \<and> length (toHex seedA) = 64"
  using one_seed_both_private_keys [OF generate_keysA] by (simp add: seedA_def)

section \<open>The conversation identifier is symmetric\<close>

lemma sort2_plus_commute:
  "plus_js (fst (sort2 a b)) (snd (sort2 a b)) = plus_js (fst (sort2 b a)) (snd (sort2 b a))"
  by (cases a; cases b) (auto simp: sort2_def)

lemma sort2_strings:
  "sort2 (Some x) (Some y) = (Some (min x y), Some (max x y))"
  by (auto simp: sort2_def min_def max_def)

text \<open>
  Claim C3. For every two identities whose texts parse as JSON, the conversation
  identifier is the same for both orders of the arguments; for two identities with a
  signing key each it is the hexadecimal digest of the smaller key followed by the larger.
\<close>

theorem generateConversationId_symmetric:
  assumes "parsePublicKey L a = Inr da" and "parsePublicKey L b = Inr db"
  shows "generateConversationId L a b = generateConversationId L b a
     \<and> (\<forall>ka kb x y. da = Some ka \<and> db = Some kb \<and> ed25519 ka = Some x \<and> ed25519 kb = Some y \<longrightarrow>
          generateConversationId L a b = Inr (toHex (sha256 L (textEncode L (min x y @ max x y)))))"
proof -
  have "generateConversationId L a b = generateConversationId L b a"
    using assms sort2_plus_commute [of "ed25519 (the da)" "ed25519 (the db)"]
    by (cases da; cases db) (simp_all add: generateConversationId_def split_beta)
  moreover have "\<forall>ka kb x y. da = Some ka \<and> db = Some kb \<and> ed25519 ka = Some x \<and> ed25519 kb = Some y \<longrightarrow>
          generateConversationId L a b = Inr (toHex (sha256 L (textEncode L (min x y @ max x y))))"
    using assms by (auto simp: generateConversationId_def sort2_strings plus_js_def)
  ultimately show ?thesis by blast
qed

lemma parse_publicKey_keysA:
  "parsePublicKey toyLibs (publicKey keysA) =
     Inr (Some \<lparr>ed25519 = Some (toHex (toyPublic seedA)), x25519 = Some (toHex (toyPublic seedA))\<rparr>)"
  by code_simp

lemma parse_publicKey_keysB:
  "parsePublicKey toyLibs (publicKey keysB) =
     Inr (Some \<lparr>ed25519 = Some (toHex (toyPublic seedB)), x25519 = Some (toHex (toyPublic seedB))\<rparr>)"
  by code_simp

theorem generateConversationId_symmetric_witness:
  "generateConversationId toyLibs (publicKey keysA) (publicKey keysB) =
     generateConversationId toyLibs (publicKey keysB) (publicKey keysA)"
  using generateConversationId_symmetric [OF parse_publicKey_keysA parse_publicKey_keysB]
  by blast


section \<open>The relay: time stamps, authentication and the shape of requests\<close>

lemma verifyRequestSignature_iff:
  "verifyRequestSignature S tol now origin t dest em sg =
     (\<not> \<bar>now - t\<bar> > tol \<and> reconstructAndVerify S origin t dest em sg = Inr True)"
  by (cases "reconstructAndVerify S origin t dest em sg")
     (auto simp: verifyRequestSignature_def)

text \<open>
  Claim C5. \<open>verifyRequestSignature\<close> accepts exactly when the distance between the time
  of the server and the time stamp does not exceed the tolerance and the signature
  verifies: the time stamp alone rejects exactly when \<open>abs(now - t)\<close> exceeds the
  tolerance. The tolerance is 300000 ms when none is configured. A request signed at \<open>t\<close>
  is accepted at \<open>t + tolerance - 1\<close> if and only if its signature verifies (for the
  default, and for any tolerance of at least 1), and is rejected at \<open>t + tolerance + 1\<close>.
\<close>

theorem timestamp_window:
  "verifyRequestSignature S tol now origin t dest em sg =
     (\<not> \<bar>now - t\<bar> > tol \<and> reconstructAndVerify S origin t dest em sg = Inr True)
   \<and> TIMESTAMP_TOLERANCE None = 300000
   \<and> verifyRequestSignature S (TIMESTAMP_TOLERANCE None) (t + TIMESTAMP_TOLERANCE None - 1)
         origin t dest em sg = (reconstructAndVerify S origin t dest em sg = Inr True)
   \<and> \<not> verifyRequestSignature S (TIMESTAMP_TOLERANCE None) (t + TIMESTAMP_TOLERANCE None + 1)
         origin t dest em sg
   \<and> (1 \<le> tol \<longrightarrow> verifyRequestSignature S tol (t + tol - 1) origin t dest em sg =
         (reconstructAndVerify S origin t dest em sg = Inr True))
   \<and> \<not> verifyRequestSignature S tol (t + tol + 1) origin t dest em sg"
proof -
  have "tol < \<bar>tol + 1\<bar>" by arith
  then show ?thesis
    by (simp add: verifyRequestSignature_iff TIMESTAMP_TOLERANCE_def)
qed

lemma requestAB_signature_valid:
  "reconstructAndVerify toyServerLibs (publicKey keysA) 1700000000000 (publicKey keysB)
     (er_message sentAB) requestSignatureAB = Inr True"
  by code_simp

theorem timestamp_window_witness:
  "verifyRequestSignature toyServerLibs 300000 (1700000000000 + 300000 - 1)
      (publicKey keysA) 1700000000000 (publicKey keysB) (er_message sentAB) requestSignatureAB
   \<and> \<not> verifyRequestSignature toyServerLibs 300000 (1700000000000 + 300000 + 1)
      (publicKey keysA) 1700000000000 (publicKey keysB) (er_message sentAB) requestSignatureAB"
  using timestamp_window [where S = toyServerLibs and tol = 300000 and now = 0
      and origin = "publicKey keysA" and t = 1700000000000 and dest = "publicKey keysB"
      and em = "er_message sentAB" and sg = requestSignatureAB]
    requestAB_signature_valid
  by simp

lemma post_send_logged:
  "sanitizeForLog (sb_expoPushToken body) (sb_signature body) = Inr () \<Longrightarrow>
   post_send S tol now db body =
     (case shapeError S body of
        Some text \<Rightarrow> (Failure 400 text, [])
      | None \<Rightarrow>
          if \<not> truthy (sb_origin body)
          then (Failure 401 ''Unauthorized: Invalid or expired signature'', [])
          else if \<not> verifyRequestSignature S tol now (stringOf (sb_origin body))
                      (numberOf (sb_timestamp body)) (stringOf (sb_destination body))
                      (stringOf (sb_encryptedMessage body)) (stringOf (sb_signature body))
          then (Failure 401 ''Unauthorized: Invalid or expired signature'', [VerifyRequestSignature])
          else (let (r, evs) = forward S db body in (r, VerifyRequestSignature # evs)))"
  by (simp add: post_send_def)


lemma forward_not_found:
  "lookup (stringOf (sb_destination body)) db = None \<Longrightarrow>
   forward S db body = (Failure 404 ''Recipient not found'', [LookupRecipient])"
  by (simp add: forward_def)

text \<open>
  Claim C6, as amended. For every request to \<open>/send\<close> that the handler logs without an
  exception: a failed check of the shape is answered with status 400 and the text of that
  check, a failed authentication with status 401, and a destination that is not in the
  table with status 404, three answers that differ. Within the failed authentication no
  condition is named: a time stamp outside the window, a signature that does not verify
  and a missing origin all get the one answer 401 with the text
  \<open>Unauthorized: Invalid or expired signature\<close>, so the caller cannot tell an expired time
  stamp from an invalid signature.
\<close>

theorem rejections_by_condition:
  assumes "sanitizeForLog (sb_expoPushToken body) (sb_signature body) = Inr ()"
  shows "(\<forall>text. shapeError S body = Some text \<longrightarrow>
            post_send S tol now db body = (Failure 400 text, []))
     \<and> (shapeError S body = None
          \<and> (\<not> truthy (sb_origin body) \<or> \<bar>now - numberOf (sb_timestamp body)\<bar> > tol
              \<or> reconstructAndVerify S (stringOf (sb_origin body)) (numberOf (sb_timestamp body))
                   (stringOf (sb_destination body)) (stringOf (sb_encryptedMessage body))
                   (stringOf (sb_signature body)) \<noteq> Inr True) \<longrightarrow>
          fst (post_send S tol now db body) =
            Failure 401 ''Unauthorized: Invalid or expired signature'')
     \<and> (shapeError S body = None \<and> truthy (sb_origin body)
          \<and> \<not> \<bar>now - numberOf (sb_timestamp body)\<bar> > tol
          \<and> reconstructAndVerify S (stringOf (sb_origin body)) (numberOf (sb_timestamp body))
                (stringOf (sb_destination body)) (stringOf (sb_encryptedMessage body))
                (stringOf (sb_signature body)) = Inr True
          \<and> lookup (stringOf (sb_destination body)) db = None \<longrightarrow>
          post_send S tol now db body =
            (Failure 404 ''Recipient not found'', [VerifyRequestSignature, LookupRecipient]))
     \<and> (\<forall>a b. Failure 400 a \<noteq> Failure 401 b \<and> Failure 401 a \<noteq> Failure 404 b
          \<and> Failure 400 a \<noteq> Failure 404 b)"
  by (auto simp: post_send_logged [OF assms] verifyRequestSignature_iff forward_not_found)

lemma shape_requestAB: "shapeError toyServerLibs requestAB = None"
  by code_simp


lemma logged_requestAB: "sanitizeForLog (sb_expoPushToken requestAB) (sb_signature requestAB) = Inr ()"
  by code_simp


lemma requestAB_fields:
  "stringOf (sb_origin requestAB) = publicKey keysA"
  "numberOf (sb_timestamp requestAB) = 1700000000000"
  "stringOf (sb_destination requestAB) = publicKey keysB"
  "stringOf (sb_encryptedMessage requestAB) = er_message sentAB"
  "stringOf (sb_signature requestAB) = requestSignatureAB"
  by (simp_all add: requestAB_def stringOf_def numberOf_def)

lemma lookup_emptyDb: "lookup i emptyDb = None"
  by (simp add: lookup_def emptyDb_def)

theorem rejections_by_condition_witness:
  "fst (post_send toyServerLibs 300000 1700000300001 emptyDb requestAB) =
     Failure 401 ''Unauthorized: Invalid or expired signature''
   \<and> post_send toyServerLibs 300000 1700000000500 emptyDb requestAB =
     (Failure 404 ''Recipient not found'', [VerifyRequestSignature, LookupRecipient])"
proof -
  have t: "truthy (sb_origin requestAB)"
    by (simp add: requestAB_def truthy_def keysA_def)
  from rejections_by_condition
    [where S = toyServerLibs and body = requestAB and now = 1700000300001 and tol = 300000
       and db = emptyDb, OF logged_requestAB]
  have a: "fst (post_send toyServerLibs 300000 1700000300001 emptyDb requestAB) =
     Failure 401 ''Unauthorized: Invalid or expired signature''"
    by (simp add: requestAB_fields shape_requestAB)
  from rejections_by_condition
    [where S = toyServerLibs and body = requestAB and now = 1700000000500 and tol = 300000
       and db = emptyDb, OF logged_requestAB]
  have b: "post_send toyServerLibs 300000 1700000000500 emptyDb requestAB =
     (Failure 404 ''Recipient not found'', [VerifyRequestSignature, LookupRecipient])"
    using t by (simp add: requestAB_fields shape_requestAB requestAB_signature_valid lookup_emptyDb)
  from a b show ?thesis by blast
qed

text \<open>
  Claim C6 as stated fails: the request of A, validly signed, arriving after the window,
  and the same request inside the window with a forged signature get equal answers.
\<close>

theorem expired_and_forged_same_answer:
  "post_send toyServerLibs 300000 1700000300001 emptyDb requestAB =
     post_send toyServerLibs 300000 1700000000500 emptyDb requestForged
   \<and> \<bar>1700000300001 - numberOf (sb_timestamp requestAB)\<bar> > 300000
   \<and> reconstructAndVerify toyServerLibs (stringOf (sb_origin requestAB))
         (numberOf (sb_timestamp requestAB)) (stringOf (sb_destination requestAB))
         (stringOf (sb_encryptedMessage requestAB)) (stringOf (sb_signature requestAB)) = Inr True
   \<and> \<not> \<bar>1700000000500 - numberOf (sb_timestamp requestForged)\<bar> > 300000
   \<and> reconstructAndVerify toyServerLibs (stringOf (sb_origin requestForged))
         (numberOf (sb_timestamp requestForged)) (stringOf (sb_destination requestForged))
         (stringOf (sb_encryptedMessage requestForged)) (stringOf (sb_signature requestForged)) = Inr False"
  by code_simp




section \<open>A request signed on the device verifies on the relay\<close>

lemma getKeys_stored:
  "store PUBLIC_KEY = Some pub \<Longrightarrow> store PRIVATE_KEY = Some priv \<Longrightarrow> pub \<noteq> [] \<Longrightarrow> priv \<noteq> [] \<Longrightarrow>
   getKeys L sds store = (Inr \<lparr>publicKey = pub, privateKey = priv\<rparr>, store)"
  by (simp add: getKeys_def)





lemma device_storeA: "getKeys toyLibs (env_seeds envA) storeA = (Inr keysA, storeA)"
proof -
  have "getKeys toyLibs (env_seeds envA) storeA =
      (Inr \<lparr>publicKey = publicKey keysA, privateKey = privateKey keysA\<rparr>, storeA)"
    by (rule getKeys_stored) (simp_all add: storeA_def PUBLIC_KEY_def PRIVATE_KEY_def keysA_def)
  then show ?thesis by simp
qed

lemma device_storeB: "getKeys toyLibs (env_seeds envB) storeB = (Inr keysB, storeB)"
proof -
  have "getKeys toyLibs (env_seeds envB) storeB =
      (Inr \<lparr>publicKey = publicKey keysB, privateKey = privateKey keysB\<rparr>, storeB)"
    by (rule getKeys_stored) (simp_all add: storeB_def PUBLIC_KEY_def PRIVATE_KEY_def keysB_def)
  then show ?thesis by simp
qed

lemma keyPair_json_keysA:
  "fromJSON (parseKeyPair toyLibs) (privateKey keysA) = keyPairObject toyLibs seedA"
  by code_simp

lemma keyPair_json_keysB:
  "fromJSON (parseKeyPair toyLibs) (privateKey keysB) = keyPairObject toyLibs seedB"
  by code_simp


lemma toy_signature_verifies:
  "length sk = 32 \<Longrightarrow> toySign m sk = Inr sg \<Longrightarrow> toyVerify sg m (toyPublic sk) = Inr True"
  by (auto simp: toySign_def toyVerify_def toyDigest_def toyPublic_def)



section \<open>Decryption undoes encryption\<close>

lemma decryptMessage_getKeys:
  "getKeys L (env_seeds env) store = (Inr ks, store') \<Longrightarrow>
   fst (decryptMessage L env store p) = catchE (decryptMessage_try L ks p) (\<lambda>error. Inr None)"
  by (simp add: decryptMessage_def)

lemma toHex_eq_Nil: "toHex bs = [] \<longleftrightarrow> bs = []"
  using length_toHex [of bs] by (metis length_0_conv mult_is_0 zero_neq_numeral)

text \<open>
  Claim C1. For every message \<open>m\<close> and every two devices A and B that hold key pairs
  generated from their seeds: \<open>encryptMessage\<close> on A's device for B's identity succeeds,
  and \<open>decryptMessage\<close> on B's device, given the envelope it produced and A's identity as
  origin, returns exactly \<open>m\<close>, A's public identity as sender, and the time of the
  encryption. The libraries are parameters; what is asked of them is that parsing undoes
  printing on the documents involved, that the key agreement gives both sides the same
  secret, that decryption undoes encryption under the same key and nonce, and that a
  signature verifies under the public key of the signer. The nonce has 12 bytes.
\<close>

theorem decrypt_inverts_encrypt:
  assumes genA: "generateKeyPair L seed1 = Inr ks1"
    and genB: "generateKeyPair L seed2 = Inr ks2"
    and devA: "getKeys L (env_seeds env1) store1 = (Inr ks1, store1)"
    and devB: "getKeys L (env_seeds env2) store2 = (Inr ks2, store2)"
    and keyPairA_json: "fromJSON (parseKeyPair L) (privateKey ks1) = keyPairObject L seed1"
    and keyPairB_json: "fromJSON (parseKeyPair L) (privateKey ks2) = keyPairObject L seed2"
    and pubA: "ed25519_getPublicKey L seed1 = Inr edPub1" "x25519_getPublicKey L seed1 = Inr xPub1"
    and pubB: "ed25519_getPublicKey L seed2 = Inr edPub2" "x25519_getPublicKey L seed2 = Inr xPub2"
    and identityA_json: "fromJSON (parsePublicKey L) (publicKey ks1) =
        Inr \<lparr>ed25519 = Some (toHex edPub1), x25519 = Some (toHex xPub1)\<rparr>"
    and identityB_json: "fromJSON (parsePublicKey L) (publicKey ks2) =
        Inr \<lparr>ed25519 = Some (toHex edPub2), x25519 = Some (toHex xPub2)\<rparr>"
    and payload_json: "fromJSON (parsePayload L) (textDecode L (textEncode L (stringifyPayload L
          \<lparr>pl_publicKey = Some (publicKey ks1), pl_message = Some m,
           pl_timestamp = Some (env_now env1)\<rparr>))) =
        Inr \<lparr>pl_publicKey = Some (publicKey ks1), pl_message = Some m,
             pl_timestamp = Some (env_now env1)\<rparr>"
    and agreement: "\<exists>k. x25519_getSharedSecret L seed1 xPub2 = Inr k
        \<and> x25519_getSharedSecret L seed2 xPub1 = Inr k"
    and cipher: "\<And>k pt. x25519_getSharedSecret L seed1 xPub2 = Inr k \<Longrightarrow>
        \<exists>ct. chacha20poly1305_encrypt L k (env_randomBytes12 env1) pt = Inr ct
          \<and> chacha20poly1305_decrypt L k (env_randomBytes12 env1) ct = Inr pt"
    and signing: "\<And>ct. \<exists>sg. ed25519_sign L ct seed1 = Inr sg
        \<and> ed25519_verify L sg ct edPub1 = Inr True"
    and nonce12: "length (env_randomBytes12 env1) = 12"
  shows "\<exists>r em. fst (encryptMessage L env1 store1 m (publicKey ks2)) = Inr r
     \<and> er_destination r = publicKey ks2
     \<and> er_message r = stringifyEncryptedMessage L em
     \<and> fst (decryptMessage L env2 store2
          \<lparr>in_origin = Some (publicKey ks1), in_destination = Some (er_destination r),
           in_encryptedMessage = Some em\<rparr>) =
        Inr (Some \<lparr>d_senderPublicKey = Some (publicKey ks1), d_message = Some m,
                   d_timestamp = Some (env_now env1)\<rparr>)"
proof -
  let ?payload = "\<lparr>pl_publicKey = Some (publicKey ks1), pl_message = Some m,
           pl_timestamp = Some (env_now env1)\<rparr>"
  let ?pt = "textEncode L (stringifyPayload L ?payload)"
  let ?nonce = "env_randomBytes12 env1"
  from generateKeyPair_Inr [OF genA] pubA have kpA: "keyPairObject L seed1 =
      Inr \<lparr>kp_ed25519 = Some \<lparr>kh_publicKey = Some (toHex edPub1), kh_privateKey = Some (toHex seed1)\<rparr>,
           kp_x25519 = Some \<lparr>kh_publicKey = Some (toHex xPub1), kh_privateKey = Some (toHex seed1)\<rparr>\<rparr>"
    by auto
  from generateKeyPair_Inr [OF genB] pubB have kpB: "keyPairObject L seed2 =
      Inr \<lparr>kp_ed25519 = Some \<lparr>kh_publicKey = Some (toHex edPub2), kh_privateKey = Some (toHex seed2)\<rparr>,
           kp_x25519 = Some \<lparr>kh_publicKey = Some (toHex xPub2), kh_privateKey = Some (toHex seed2)\<rparr>\<rparr>"
    by auto
  from agreement obtain k where kA: "x25519_getSharedSecret L seed1 xPub2 = Inr k"
    and kB: "x25519_getSharedSecret L seed2 xPub1 = Inr k" by blast
  from cipher [OF kA, of ?pt] obtain ct where
    enc: "chacha20poly1305_encrypt L k ?nonce ?pt = Inr ct"
    and dec: "chacha20poly1305_decrypt L k ?nonce ct = Inr ?pt" by blast
  from signing [of ct] obtain sg where sg: "ed25519_sign L ct seed1 = Inr sg"
    and vf: "ed25519_verify L sg ct edPub1 = Inr True" by blast
  let ?em = "\<lparr>em_encrypted = Some (toHex ct), em_nonce = Some (toHex ?nonce),
              em_signature = Some (toHex sg)\<rparr>"
  let ?r = "\<lparr>er_destination = publicKey ks2, er_message = stringifyEncryptedMessage L ?em\<rparr>"
  have e: "encryptMessage L env1 store1 m (publicKey ks2) = (Inr ?r, store1)"
    using devA kA enc sg
    by (simp add: encryptMessage_def keyPairA_json kpA identityB_json)
  have n: "toHex ?nonce \<noteq> []"
    using nonce12 by (auto simp: toHex_eq_Nil)
  have "decryptMessage_try L ks2
          \<lparr>in_origin = Some (publicKey ks1), in_destination = Some (publicKey ks2),
           in_encryptedMessage = Some ?em\<rparr> =
        Inr (Some \<lparr>d_senderPublicKey = pl_publicKey ?payload, d_message = pl_message ?payload,
                   d_timestamp = pl_timestamp ?payload\<rparr>)"
    using n vf kB dec payload_json
    by (simp add: decryptMessage_try_def keyPairB_json kpB identityA_json falsy_def)
  then have d: "fst (decryptMessage L env2 store2
          \<lparr>in_origin = Some (publicKey ks1), in_destination = Some (publicKey ks2),
           in_encryptedMessage = Some ?em\<rparr>) =
        Inr (Some \<lparr>d_senderPublicKey = Some (publicKey ks1), d_message = Some m,
                   d_timestamp = Some (env_now env1)\<rparr>)"
    by (simp add: decryptMessage_getKeys [OF devB] catchE_def)
  show ?thesis
    by (rule exI [of _ ?r], rule exI [of _ ?em]) (simp add: e d)
qed


lemma identity_json_keysB:
  "fromJSON (parsePublicKey toyLibs) (publicKey keysB) =
     Inr \<lparr>ed25519 = Some (toHex (toyPublic seedB)), x25519 = Some (toHex (toyPublic seedB))\<rparr>"
  by code_simp

lemma identity_json_keysA:
  "fromJSON (parsePublicKey toyLibs) (publicKey keysA) =
     Inr \<lparr>ed25519 = Some (toHex (toyPublic seedA)), x25519 = Some (toHex (toyPublic seedA))\<rparr>"
  by code_simp

lemma generate_keysB: "generateKeyPair toyLibs seedB = Inr keysB"
  by code_simp

lemma payload_json_hi:
  "fromJSON (parsePayload toyLibs) (textDecode toyLibs (textEncode toyLibs (stringifyPayload toyLibs
          \<lparr>pl_publicKey = Some (publicKey keysA), pl_message = Some ''hi'',
           pl_timestamp = Some (env_now envA)\<rparr>))) =
        Inr \<lparr>pl_publicKey = Some (publicKey keysA), pl_message = Some ''hi'',
             pl_timestamp = Some (env_now envA)\<rparr>"
  by code_simp

lemma toy_agreement:
  "toyShared seedA (toyPublic seedB) = toyShared seedB (toyPublic seedA)"
  by code_simp

lemma length_toyTag: "length (toyTag k n) = 16"
  by (simp add: toyTag_def)

lemma toy_cipher_roundtrip:
  "length n = 12 \<Longrightarrow> toyEncrypt k n pt = Inr (map (\<lambda>b. b + 1) pt @ toyTag k n)
     \<and> toyDecrypt k n (map (\<lambda>b. b + 1) pt @ toyTag k n) = Inr pt"
  by (simp add: toyEncrypt_def toyDecrypt_def length_toyTag comp_def)

theorem decrypt_inverts_encrypt_witness:
  "\<exists>r em. fst (encryptMessage toyLibs envA storeA ''hi'' (publicKey keysB)) = Inr r
     \<and> er_destination r = publicKey keysB
     \<and> er_message r = stringifyEncryptedMessage toyLibs em
     \<and> fst (decryptMessage toyLibs envB storeB
          \<lparr>in_origin = Some (publicKey keysA), in_destination = Some (er_destination r),
           in_encryptedMessage = Some em\<rparr>) =
        Inr (Some \<lparr>d_senderPublicKey = Some (publicKey keysA), d_message = Some ''hi'',
                   d_timestamp = Some (env_now envA)\<rparr>)"
proof (rule decrypt_inverts_encrypt [OF generate_keysA generate_keysB device_storeA device_storeB
         keyPair_json_keysA keyPair_json_keysB])
  show "ed25519_getPublicKey toyLibs seedA = Inr (toyPublic seedA)"
    and "x25519_getPublicKey toyLibs seedA = Inr (toyPublic seedA)"
    and "ed25519_getPublicKey toyLibs seedB = Inr (toyPublic seedB)"
    and "x25519_getPublicKey toyLibs seedB = Inr (toyPublic seedB)"
    by (simp_all add: toyLibs_def)
  show "fromJSON (parsePublicKey toyLibs) (publicKey keysA) =
     Inr \<lparr>ed25519 = Some (toHex (toyPublic seedA)), x25519 = Some (toHex (toyPublic seedA))\<rparr>"
    by (rule identity_json_keysA)
  show "fromJSON (parsePublicKey toyLibs) (publicKey keysB) =
     Inr \<lparr>ed25519 = Some (toHex (toyPublic seedB)), x25519 = Some (toHex (toyPublic seedB))\<rparr>"
    by (rule identity_json_keysB)
  show "fromJSON (parsePayload toyLibs) (textDecode toyLibs (textEncode toyLibs (stringifyPayload toyLibs
          \<lparr>pl_publicKey = Some (publicKey keysA), pl_message = Some ''hi'',
           pl_timestamp = Some (env_now envA)\<rparr>))) =
        Inr \<lparr>pl_publicKey = Some (publicKey keysA), pl_message = Some ''hi'',
             pl_timestamp = Some (env_now envA)\<rparr>"
    by (rule payload_json_hi)
  show "\<exists>k. x25519_getSharedSecret toyLibs seedA (toyPublic seedB) = Inr k
        \<and> x25519_getSharedSecret toyLibs seedB (toyPublic seedA) = Inr k"
    using toy_agreement by (simp add: toyLibs_def toyShared_def)
  show "\<And>k pt. x25519_getSharedSecret toyLibs seedA (toyPublic seedB) = Inr k \<Longrightarrow>
        \<exists>ct. chacha20poly1305_encrypt toyLibs k (env_randomBytes12 envA) pt = Inr ct
          \<and> chacha20poly1305_decrypt toyLibs k (env_randomBytes12 envA) ct = Inr pt"
    using toy_cipher_roundtrip [of "env_randomBytes12 envA"]
    by (simp add: toyLibs_def envA_def)
  show "\<And>ct. \<exists>sg. ed25519_sign toyLibs ct seedA = Inr sg
        \<and> ed25519_verify toyLibs sg ct (toyPublic seedA) = Inr True"
    using toy_signature_verifies [of seedA]
    by (simp add: toyLibs_def toySign_def seedA_def)
  show "length (env_randomBytes12 envA) = 12"
    by (simp add: envA_def)
qed


section \<open>When decryption returns null\<close>














text \<open>
  Claim C2 against the code. The message of A is taken with one bit of its signature
  flipped: the signature verifies before the change and no longer after it, and
  \<open>decryptMessage\<close> still returns the plaintext, where the claim has it stop with
  \<open>SignatureInvalid\<close> before any decryption.
\<close>

theorem flipped_signature_is_decrypted:
  "in_encryptedMessage incomingFlipped =
       Some \<lparr>em_encrypted = Some cipherAB, em_nonce = Some nonceAB,
             em_signature = Some signatureFlipped\<rparr>
   \<and> ed25519_verify toyLibs (hexToBytes signatureAB) (hexToBytes cipherAB) (toyPublic seedA) = Inr True
   \<and> ed25519_verify toyLibs (hexToBytes signatureFlipped) (hexToBytes cipherAB) (toyPublic seedA) = Inr False
   \<and> fst (decryptMessage toyLibs envB storeB incomingFlipped) = Inr (Some hiFromA)"
  by code_simp

text \<open>
  The same for all inputs and libraries: when the signature check does not throw, the
  result of the \<open>try\<close> block is what it would be with a check that accepts everything.
\<close>

lemma bindE_unused: "\<exists>b. m = Inr b \<Longrightarrow> bindE m (\<lambda>isValid. X) = X"
  by auto

lemma decryptMessage_ignores_isValid:
  assumes "\<forall>sg ct pk. \<exists>b. ed25519_verify L sg ct pk = Inr b"
  shows "decryptMessage_try (L\<lparr>ed25519_verify := \<lambda>sg ct pk. Inr True\<rparr>) ks p =
     decryptMessage_try L ks p"
  using assms by (simp add: decryptMessage_try_def bindE_unused cong: if_cong option.case_cong)

end
